theory Spec2Isabelle
  imports Main
begin

section \<open>The star registry ledger of \<^verbatim>\<open>src/src/blockchain.js\<close>\<close>

text \<open>
  The class \<^verbatim>\<open>Blockchain\<close> keeps an array \<^verbatim>\<open>chain\<close> of blocks and a counter
  \<^verbatim>\<open>height\<close>. Every method returns a promise. The model makes three things explicit:
  \<^item> the object state is a record that each operation receives and returns;
  \<^item> a promise is the value it settles with, \<open>Resolved v\<close> or \<open>Rejected v\<close>;
  \<^item> an \<^verbatim>\<open>async\<close> function runs synchronously up to its first \<^verbatim>\<open>await\<close> and
    continues in a later microtask, so a function with an \<^verbatim>\<open>await\<close> is modelled by the
    segment that runs at the call (\<open>_begin\<close>) and the segment that runs on resumption
    (\<open>_resume\<close>); the function run with nothing interleaved is their composition.
  The collaborators that are not part of the file are parameters: \<open>sha\<close> stands for
  \<^verbatim>\<open>SHA256(JSON.stringify(block)).toString()\<close>, \<open>verify\<close> for
  \<^verbatim>\<open>bitcoinMessage.verify\<close>, and every reading of the clock is an argument holding
  the string \<^verbatim>\<open>new Date().getTime().toString()\<close>.
\<close>

subsection \<open>JavaScript values\<close>

text \<open>
  A string of the program is the list of its UTF-16 code units. \<open>js\<close> gives the string
  that a text of this theory denotes, one code unit for each of its characters.
\<close>

type_synonym jsstring = "nat list"

definition js :: "string \<Rightarrow> jsstring" where
  "js s = map of_char s"

text \<open>
  Serializable data, as it goes through \<^verbatim>\<open>JSON.stringify\<close> and back. Numbers are
  modelled by integers. The names of the properties of an object are texts of the source.
\<close>

datatype json =
    JNull
  | JBool bool
  | JNum int
  | JStr jsstring
  | JArr "json list"
  | JObj "(string \<times> json) list"

text \<open>The truthiness that \<^verbatim>\<open>if (x)\<close> and \<^verbatim>\<open>x && y\<close> test.\<close>

fun truthy :: "json \<Rightarrow> bool" where
  "truthy JNull = False"
| "truthy (JBool b) = b"
| "truthy (JNum n) = (n \<noteq> 0)"
| "truthy (JStr s) = (s \<noteq> [])"
| "truthy (JArr xs) = True"
| "truthy (JObj kvs) = True"

text \<open>
  Reading a named property \<^verbatim>\<open>x.k\<close> of a truthy value, for the two keys the program
  reads (\<^verbatim>\<open>address\<close> and \<^verbatim>\<open>star\<close>); \<open>None\<close> is \<^verbatim>\<open>undefined\<close>.
\<close>

fun member_of :: "json \<Rightarrow> string \<Rightarrow> json option" where
  "member_of (JObj kvs) k = map_of kvs k"
| "member_of x k = None"

text \<open>The contents of a field that holds a hash, or does not hold one yet.\<close>

datatype hashref = Undefined | Null | Hash jsstring

text \<open>
  A number that \<^verbatim>\<open>parseInt\<close> returns: an exact integer, or \<open>None\<close> for
  \<^verbatim>\<open>NaN\<close>. The numbers of JavaScript are exact up to \<open>2\<^sup>5\<^sup>3\<close>, far above any
  count of seconds.
\<close>

type_synonym jsnum = "int option"

definition js_minus :: "jsnum \<Rightarrow> jsnum \<Rightarrow> jsnum" where
  "js_minus a b = (case (a, b) of (Some x, Some y) \<Rightarrow> Some (x - y) | _ \<Rightarrow> None)"

text \<open>\<^verbatim>\<open>a >= b\<close>: any comparison with \<^verbatim>\<open>NaN\<close> is false.\<close>

definition js_ge :: "jsnum \<Rightarrow> int \<Rightarrow> bool" where
  "js_ge a b = (case a of Some x \<Rightarrow> x \<ge> b | None \<Rightarrow> False)"

subsection \<open>The built-in jsstring functions the program calls\<close>

text \<open>
  \<^verbatim>\<open>s.split(":")\<close>: the fields between the colons; the empty string has one field.
\<close>

fun split_colon :: "jsstring \<Rightarrow> jsstring list" where
  "split_colon [] = [[]]"
| "split_colon (c # cs) =
     (if c = of_char (CHR '':'') then [] # split_colon cs
      else (case split_colon cs of
              f # fs \<Rightarrow> (c # f) # fs
            | [] \<Rightarrow> [[c]]))"

text \<open>\<^verbatim>\<open>s.slice(0, -3)\<close>: all but the last three code units, empty when there are at most three.\<close>

definition slice_0_m3 :: "jsstring \<Rightarrow> jsstring" where
  "slice_0_m3 s = take (length s - 3) s"

text \<open>
  The code units that \<^verbatim>\<open>parseInt\<close> skips at the start of its argument: the white space
  and the line terminators of the language. These are TAB, LF, VT, FF, CR, the space, the
  no-break space U+00A0, U+1680, U+2000 to U+200A, the line and paragraph separators U+2028
  and U+2029, U+202F, U+205F, U+3000 and the byte order mark U+FEFF.
\<close>

definition isWhiteSpace :: "nat \<Rightarrow> bool" where
  "isWhiteSpace u =
     (u \<in> set [0x0009, 0x000A, 0x000B, 0x000C, 0x000D, 0x0020, 0x00A0, 0x1680,
               0x2028, 0x2029, 0x202F, 0x205F, 0x3000, 0xFEFF]
      \<or> (0x2000 \<le> u \<and> u \<le> 0x200A))"

text \<open>
  The value of a code unit as a digit: \<^verbatim>\<open>0\<close> to \<^verbatim>\<open>9\<close>, then \<^verbatim>\<open>a\<close> to \<^verbatim>\<open>f\<close>
  in either case.
\<close>

definition digitValue :: "nat \<Rightarrow> nat option" where
  "digitValue n =
     (if 48 \<le> n \<and> n \<le> 57 then Some (n - 48)
      else if 97 \<le> n \<and> n \<le> 102 then Some (n - 87)
      else if 65 \<le> n \<and> n \<le> 70 then Some (n - 55)
      else None)"

definition isDigitIn :: "nat \<Rightarrow> nat \<Rightarrow> bool" where
  "isDigitIn R c = (case digitValue c of Some d \<Rightarrow> d < R | None \<Rightarrow> False)"

definition digitsValue :: "nat \<Rightarrow> jsstring \<Rightarrow> nat" where
  "digitsValue R Z = foldl (\<lambda>a c. case digitValue c of Some d \<Rightarrow> a * R + d | None \<Rightarrow> a) 0 Z"

text \<open>
  \<^verbatim>\<open>parseInt(string)\<close> with no radix: leading white space is dropped, then a sign, then
  a prefix \<^verbatim>\<open>0x\<close> selects radix 16; the longest run of digits of the radix is the
  number, and no digit at all gives \<^verbatim>\<open>NaN\<close>.
\<close>

definition parseInt :: "jsstring \<Rightarrow> jsnum" where
  "parseInt inputString =
     (let S = dropWhile isWhiteSpace inputString;
          (sign, S1) = (case S of
                          [] \<Rightarrow> (1, S)
                        | c # r \<Rightarrow> if c = of_char (CHR ''-'') then (- 1, r)
                                   else if c = of_char (CHR ''+'') then (1, r) else (1, S));
          (R, S2) = (case S1 of
                       a # b # r \<Rightarrow> if a = of_char (CHR ''0'')
                                         \<and> (b = of_char (CHR ''x'') \<or> b = of_char (CHR ''X''))
                                      then (16, r) else (10, S1)
                     | _ \<Rightarrow> (10, S1));
          Z = takeWhile (isDigitIn R) S2
      in if Z = [] then None else Some (sign * int (digitsValue R Z)))"

text \<open>
  \<^verbatim>\<open>parseInt(message.split(":")[1])\<close>: with fewer than two fields the index yields
  \<^verbatim>\<open>undefined\<close>, which \<^verbatim>\<open>parseInt\<close> reads as the string \<^verbatim>\<open>"undefined"\<close>.
\<close>

definition messageTimeOf :: "jsstring \<Rightarrow> jsnum" where
  "messageTimeOf message =
     parseInt (case split_colon message of
                 f0 # f1 # fs \<Rightarrow> f1
               | _ \<Rightarrow> js ''undefined'')"

subsection \<open>Blocks, the ledger and promises\<close>

record block =
  hash :: hashref
  height :: int
  body :: json
  time :: jsstring
  previousBlockHash :: hashref

record ledger =
  chain :: "block list"
  height :: int

datatype finding =
    BlockValidationFailed int   \<comment> \<open>\<^verbatim>\<open>{error: `Block validation failed at height ${h}`}\<close>\<close>
  | PreviousHashFailed int      \<comment> \<open>\<^verbatim>\<open>{error: `Previous block hash validation failed at height ${h}`}\<close>\<close>

datatype jsvalue =
    VNull
  | VStr jsstring
  | VBlock block
  | VStars "json list"
  | VErrorLog "finding list"
  | VTypeError                  \<comment> \<open>the error of reading a property of \<^verbatim>\<open>null\<close>\<close>
  | VError jsstring               \<comment> \<open>an error thrown by a collaborator\<close>

datatype promise = Resolved jsvalue | Rejected jsvalue

text \<open>What a call of a collaborator does: it returns, or it throws.\<close>

datatype 'a outcome = Returns 'a | Throws jsvalue

text \<open>
  Modelled from the spec: \<^verbatim>\<open>block.js\<close>, which declares the class \<^verbatim>\<open>Block\<close>, is
  not among the sources. A new block holds its payload (the model keeps the data itself for
  its encoding), and no hash, link, height or time yet; \<open>_addBlock\<close> assigns all of them.
\<close>

definition Block :: "json \<Rightarrow> block" where
  "Block data = \<lparr>hash = Null, height = 0, body = data, time = [], previousBlockHash = Null\<rparr>"

text \<open>Modelled from the spec: \<^verbatim>\<open>getBData\<close> decodes the payload of a block.\<close>

definition getBData :: "block \<Rightarrow> json" where
  "getBData b = body b"

text \<open>
  Modelled from the spec: \<^verbatim>\<open>validate\<close> recomputes the digest over the stored
  contents of the block and compares it with the stored hash.
\<close>

definition validate :: "(block \<Rightarrow> jsstring) \<Rightarrow> block \<Rightarrow> bool" where
  "validate sha b = (hash b = Hash (sha (b\<lparr>hash := Null\<rparr>)))"

subsection \<open>Queries\<close>

text \<open>\<^verbatim>\<open>getChainHeight\<close>: the promise is resolved with \<^verbatim>\<open>self.height\<close>; the model is that value.\<close>

definition getChainHeight :: "ledger \<Rightarrow> int" where
  "getChainHeight self = ledger.height self"

definition getBlockByHash :: "jsstring \<Rightarrow> ledger \<Rightarrow> promise" where
  "getBlockByHash h self =
     (case List.find (\<lambda>block. hash block = Hash h) (chain self) of
        None \<Rightarrow> Rejected (VStr ((js ''Can't find block with hash: '') @ h))
      | Some foundBlock \<Rightarrow> Resolved (VBlock foundBlock))"

definition getBlockByHeight :: "int \<Rightarrow> ledger \<Rightarrow> promise" where
  "getBlockByHeight h self =
     (case filter (\<lambda>p. block.height p = h) (chain self) of
        [] \<Rightarrow> Resolved VNull
      | block # rest \<Rightarrow> Resolved (VBlock block))"

text \<open>
  The callback of \<^verbatim>\<open>forEach\<close> in \<^verbatim>\<open>getStarsByWalletAddress\<close>, on the array
  \<open>stars\<close>. The test \<^verbatim>\<open>!block.height\<close> holds of the height 0 alone. The value of
  \<^verbatim>\<open>a && b && c\<close> is the first falsy one of the three, or \<^verbatim>\<open>c\<close>; it is pushed
  when it is truthy.
\<close>

definition collectStar :: "jsstring \<Rightarrow> json list \<Rightarrow> block \<Rightarrow> json list" where
  "collectStar address stars block =
     (if block.height block = 0 then stars
      else let blockBodyDecoded = getBData block in
        if \<not> truthy blockBodyDecoded then stars
        else if member_of blockBodyDecoded ''address'' \<noteq> Some (JStr address) then stars
        else (case member_of blockBodyDecoded ''star'' of
                None \<Rightarrow> stars
              | Some star \<Rightarrow> if truthy star then stars @ [star] else stars))"

definition getStarsByWalletAddress :: "jsstring \<Rightarrow> ledger \<Rightarrow> promise" where
  "getStarsByWalletAddress address self =
     Resolved (VStars (foldl (collectStar address) [] (chain self)))"

definition requestMessageOwnershipVerification :: "jsstring \<Rightarrow> jsstring \<Rightarrow> jsstring" where
  "requestMessageOwnershipVerification now address =
     address @ (js '':'') @ slice_0_m3 now @ (js '':starRegistry'')"

subsection \<open>Appending a block\<close>

text \<open>
  The expression \<^verbatim>\<open>await self.getBlockByHeight(chainHeight).hash\<close> reads the property
  \<^verbatim>\<open>hash\<close> of the promise that \<^verbatim>\<open>getBlockByHeight\<close> returns and awaits the
  result: member access binds tighter than \<^verbatim>\<open>await\<close>. A promise has no such
  property.
\<close>

definition hash_of_promise :: "promise \<Rightarrow> hashref" where
  "hash_of_promise p = Undefined"

text \<open>
  An \<open>_addBlock\<close> call suspended at \<^verbatim>\<open>await self.getChainHeight()\<close>: the height was read
  when the call was made.
\<close>

record pending_add =
  chainHeight :: int
  newBlock :: block

definition addBlock_begin :: "ledger \<Rightarrow> block \<Rightarrow> pending_add" where
  "addBlock_begin self block = \<lparr>chainHeight = getChainHeight self, newBlock = block\<rparr>"

definition addBlock_resume ::
  "(block \<Rightarrow> jsstring) \<Rightarrow> jsstring \<Rightarrow> pending_add \<Rightarrow> ledger \<Rightarrow> promise \<times> ledger" where
  "addBlock_resume sha now p self =
     (let previousBlockHash = hash_of_promise (getBlockByHeight (chainHeight p) self);
          block = (newBlock p)\<lparr>previousBlockHash := previousBlockHash\<rparr>;
          block = block\<lparr>time := slice_0_m3 now\<rparr>;
          block = block\<lparr>block.height := chainHeight p + 1\<rparr>;
          block = block\<lparr>hash := Hash (sha block)\<rparr>
      in (Resolved (VStr (js ''Block added'')),
          self\<lparr>chain := chain self @ [block], height := ledger.height self + 1\<rparr>))"

text \<open>\<open>_addBlock\<close> with no other operation between its call and its completion.\<close>

definition addBlock ::
  "(block \<Rightarrow> jsstring) \<Rightarrow> jsstring \<Rightarrow> block \<Rightarrow> ledger \<Rightarrow> promise \<times> ledger" where
  "addBlock sha now block self = addBlock_resume sha now (addBlock_begin self block) self"

subsection \<open>Construction\<close>

definition genesisData :: json where
  "genesisData = JObj [(''data'', JStr (js ''Genesis Block''))]"

text \<open>
  \<^verbatim>\<open>initializeChain\<close> is an \<^verbatim>\<open>async\<close> method: called by the constructor, it runs up
  to the first \<^verbatim>\<open>await\<close> inside \<open>_addBlock\<close> and returns.
\<close>

definition initializeChain_begin :: "ledger \<Rightarrow> pending_add option" where
  "initializeChain_begin self =
     (if ledger.height self = - 1 then Some (addBlock_begin self (Block genesisData)) else None)"

text \<open>The ledger when \<^verbatim>\<open>new Blockchain()\<close> returns, and what is still suspended then.\<close>

definition Blockchain_new :: "ledger \<times> pending_add option" where
  "Blockchain_new =
     (let self = \<lparr>chain = [], height = - 1\<rparr> in (self, initializeChain_begin self))"

text \<open>The ledger once the suspended initialisation has run, nothing else having run before.\<close>

definition Blockchain_init :: "(block \<Rightarrow> jsstring) \<Rightarrow> jsstring \<Rightarrow> ledger" where
  "Blockchain_init sha now =
     (case Blockchain_new of
        (self, None) \<Rightarrow> self
      | (self, Some p) \<Rightarrow> snd (addBlock_resume sha now p self))"

subsection \<open>Submitting a star\<close>

definition fiveMinutes :: int where
  "fiveMinutes = 60 * 5"

text \<open>
  The part of \<open>submitStar\<close> that runs at the call: both checks, the new block, and
  \<open>_addBlock\<close> up to its first \<^verbatim>\<open>await\<close>. \<open>Inl\<close> is a promise settled already.
  What follows the freshness check is \<open>verifyAndAdd_begin\<close>.
\<close>

definition verifyAndAdd_begin ::
  "(jsstring \<Rightarrow> jsstring \<Rightarrow> jsstring \<Rightarrow> bool outcome) \<Rightarrow>
   jsstring \<Rightarrow> jsstring \<Rightarrow> jsstring \<Rightarrow> json \<Rightarrow> ledger \<Rightarrow> promise + pending_add" where
  "verifyAndAdd_begin verify address message signature star self =
     (case verify message address signature of
        Throws error \<Rightarrow> Inl (Rejected error)
      | Returns False \<Rightarrow>
          Inl (Rejected (VStr (message @ (js '':'') @ address @ (js '':'') @ signature
                                @ (js '' can't be verified''))))
      | Returns True \<Rightarrow>
          Inr (addBlock_begin self
                 (Block (JObj [(''address'', JStr address), (''message'', JStr message),
                               (''signature'', JStr signature), (''star'', star)]))))"

definition submitStar_begin ::
  "(jsstring \<Rightarrow> jsstring \<Rightarrow> jsstring \<Rightarrow> bool outcome) \<Rightarrow> jsstring \<Rightarrow>
   jsstring \<Rightarrow> jsstring \<Rightarrow> jsstring \<Rightarrow> json \<Rightarrow> ledger \<Rightarrow> promise + pending_add" where
  "submitStar_begin verify now address message signature star self =
     (let messageTime = messageTimeOf message;
          currentTime = parseInt (slice_0_m3 now)
      in if js_ge (js_minus currentTime messageTime) fiveMinutes
         then Inl (Rejected (VStr (js ''5 minutes or more has elapsed, can't register this new block'')))
         else verifyAndAdd_begin verify address message signature star self)"

definition submitStar_resume ::
  "(block \<Rightarrow> jsstring) \<Rightarrow> jsstring \<Rightarrow> pending_add \<Rightarrow> ledger \<Rightarrow> promise \<times> ledger" where
  "submitStar_resume sha now p self =
     (case addBlock_resume sha now p self of
        (Rejected error, self') \<Rightarrow> (Rejected error, self')
      | (Resolved added, self') \<Rightarrow> (Resolved (VStr (js ''Block added'')), self'))"

text \<open>
  \<open>submitStar\<close> with no other operation between its call and its completion. The clock is
  read twice: \<open>now\<close> by the freshness check, \<open>now'\<close> when the block is stamped.
\<close>

definition submitStar ::
  "(block \<Rightarrow> jsstring) \<Rightarrow> (jsstring \<Rightarrow> jsstring \<Rightarrow> jsstring \<Rightarrow> bool outcome) \<Rightarrow> jsstring \<Rightarrow> jsstring \<Rightarrow>
   jsstring \<Rightarrow> jsstring \<Rightarrow> jsstring \<Rightarrow> json \<Rightarrow> ledger \<Rightarrow> promise \<times> ledger" where
  "submitStar sha verify now now' address message signature star self =
     (case submitStar_begin verify now address message signature star self of
        Inl settled \<Rightarrow> (settled, self)
      | Inr p \<Rightarrow> submitStar_resume sha now' p self)"

subsection \<open>Validating the chain\<close>

text \<open>
  \<^verbatim>\<open>validateChain\<close> starts one \<^verbatim>\<open>async\<close> arrow function per block and does not
  await any of them. Each runs up to \<^verbatim>\<open>await block.validate()\<close> and is suspended,
  holding its block and the answer it will receive; \<open>errorLog\<close> is as it was.
\<close>

definition check_begin ::
  "(block \<Rightarrow> jsstring) \<Rightarrow> finding list \<times> (block \<times> bool) list \<Rightarrow> block \<Rightarrow>
   finding list \<times> (block \<times> bool) list" where
  "check_begin sha st block =
     (case st of (errorLog, suspended) \<Rightarrow> (errorLog, suspended @ [(block, validate sha block)]))"

text \<open>
  The promise of \<^verbatim>\<open>validateChain\<close> is settled right after the \<^verbatim>\<open>forEach\<close>, from
  \<open>errorLog\<close> as it is then. The result is that promise, with the log and the suspended
  functions left behind.
\<close>

definition validateChain ::
  "(block \<Rightarrow> jsstring) \<Rightarrow> ledger \<Rightarrow> promise \<times> finding list \<times> (block \<times> bool) list" where
  "validateChain sha self =
     (case foldl (check_begin sha) ([], []) (chain self) of
        (errorLog, suspended) \<Rightarrow>
          (if length errorLog \<noteq> 0 then Rejected (VErrorLog errorLog)
           else Resolved (VStr (js ''Chain is valid'')),
           errorLog, suspended))"

text \<open>
  A suspended function resumed with the answer of \<^verbatim>\<open>block.validate()\<close>: it logs a
  failure, asks for the block one below and is suspended again, at
  \<^verbatim>\<open>await self.getBlockByHeight(block.height - 1)\<close>.
\<close>

definition check_resume1 ::
  "ledger \<Rightarrow> finding list \<times> (block \<times> promise) list \<Rightarrow> block \<times> bool \<Rightarrow>
   finding list \<times> (block \<times> promise) list" where
  "check_resume1 self st task =
     (case (st, task) of ((errorLog, suspended), (block, valid)) \<Rightarrow>
        ((if \<not> valid then errorLog @ [BlockValidationFailed (block.height block)] else errorLog),
         suspended @ [(block, getBlockByHeight (block.height block - 1) self)]))"

text \<open>
  Resumed with the block one below, which is \<^verbatim>\<open>null\<close> when there is none: reading
  \<^verbatim>\<open>previousBlock.hash\<close> of \<^verbatim>\<open>null\<close> throws, and the \<^verbatim>\<open>catch\<close> calls
  \<^verbatim>\<open>reject(error)\<close>. The second component lists the values \<^verbatim>\<open>reject\<close> was called
  with; the promise being settled already, these calls change nothing.
  \<open>getBlockByHeight\<close> resolves with a block or with \<^verbatim>\<open>null\<close>, nothing else.
\<close>

definition check_resume2 ::
  "finding list \<times> jsvalue list \<Rightarrow> block \<times> promise \<Rightarrow> finding list \<times> jsvalue list" where
  "check_resume2 st task =
     (case (st, task) of ((errorLog, rejects), (block, awaited)) \<Rightarrow>
        (case awaited of
           Rejected error \<Rightarrow> (errorLog, rejects @ [error])
         | Resolved (VBlock previousBlock) \<Rightarrow>
             ((if hash previousBlock \<noteq> previousBlockHash block
               then errorLog @ [PreviousHashFailed (block.height block)] else errorLog),
              rejects)
         | Resolved other \<Rightarrow> (errorLog, rejects @ [VTypeError])))"

text \<open>
  \<open>errorLog\<close> and the ignored calls of \<^verbatim>\<open>reject\<close> once every suspended function has
  run to its end, the ledger not having changed meanwhile. The promises of
  \<^verbatim>\<open>block.validate()\<close> settling after the same number of steps for every block, all
  functions take their first step, in the order of the chain, and then all of them their
  second.
\<close>

definition validateChain_late ::
  "(block \<Rightarrow> jsstring) \<Rightarrow> ledger \<Rightarrow> finding list \<times> jsvalue list" where
  "validateChain_late sha self =
     (case validateChain sha self of
        (settled, errorLog, suspended) \<Rightarrow>
          (case foldl (check_resume1 self) (errorLog, []) suspended of
             (errorLog1, suspended1) \<Rightarrow> foldl check_resume2 (errorLog1, []) suspended1))"

subsection \<open>Sessions\<close>

text \<open>
  A session is a construction followed by submissions, each one completed before the next
  is made. These are the ledger states that a caller who awaits every promise can reach.
\<close>

record submission =
  s_now :: jsstring
  s_now' :: jsstring
  s_address :: jsstring
  s_message :: jsstring
  s_signature :: jsstring
  s_star :: json

fun run ::
  "(block \<Rightarrow> jsstring) \<Rightarrow> (jsstring \<Rightarrow> jsstring \<Rightarrow> jsstring \<Rightarrow> bool outcome) \<Rightarrow>
   ledger \<Rightarrow> submission list \<Rightarrow> ledger" where
  "run sha verify self [] = self"
| "run sha verify self (c # cs) =
     run sha verify
       (snd (submitStar sha verify (s_now c) (s_now' c) (s_address c) (s_message c)
               (s_signature c) (s_star c) self)) cs"

definition session ::
  "(block \<Rightarrow> jsstring) \<Rightarrow> (jsstring \<Rightarrow> jsstring \<Rightarrow> jsstring \<Rightarrow> bool outcome) \<Rightarrow>
   jsstring \<Rightarrow> submission list \<Rightarrow> ledger" where
  "session sha verify now0 cs = run sha verify (Blockchain_init sha now0) cs"

subsection \<open>A worked session\<close>

text \<open>
  Stand-ins for the two collaborators, for the examples below: a digest of the time stamp
  and of the star, and a verifier that accepts the signature
  \<open>signed:\<close> followed by the address.
\<close>

definition demo_sha :: "block \<Rightarrow> jsstring" where
  "demo_sha b =
     (js ''#'') @ time b @ (case member_of (body b) ''star'' of Some (JStr s) \<Rightarrow> s | _ \<Rightarrow> [])"

definition demo_verify :: "jsstring \<Rightarrow> jsstring \<Rightarrow> jsstring \<Rightarrow> bool outcome" where
  "demo_verify message address signature = Returns (signature = (js ''signed:'') @ address)"

text \<open>Three stars: of address \<open>A\<close>, of \<open>B\<close>, and of \<open>A\<close> again.\<close>

definition demo_calls :: "submission list" where
  "demo_calls =
     [\<lparr>s_now = (js ''1200000''), s_now' = (js ''1201000''), s_address = (js ''A''),
       s_message = (js ''A:1000:starRegistry''), s_signature = (js ''signed:A''), s_star = JStr (js ''S1'')\<rparr>,
      \<lparr>s_now = (js ''1202000''), s_now' = (js ''1203000''), s_address = (js ''B''),
       s_message = (js ''B:1100:starRegistry''), s_signature = (js ''signed:B''), s_star = JStr (js ''S2'')\<rparr>,
      \<lparr>s_now = (js ''1204000''), s_now' = (js ''1205000''), s_address = (js ''A''),
       s_message = (js ''A:1150:starRegistry''), s_signature = (js ''signed:A''), s_star = JStr (js ''S3'')\<rparr>]"

definition demo_ledger :: ledger where
  "demo_ledger = session demo_sha demo_verify (js ''1000000'') demo_calls"

text \<open>The same ledger after someone has overwritten the star of the block at height 2.\<close>

definition forged_ledger :: ledger where
  "forged_ledger =
     demo_ledger\<lparr>chain := (chain demo_ledger)
       [2 := (chain demo_ledger ! 2)
          \<lparr>body := JObj [(''address'', JStr (js ''B'')), (''message'', JStr (js ''B:1100:starRegistry'')),
                         (''signature'', JStr (js ''signed:B'')), (''star'', JStr (js ''forged''))]\<rparr>]\<rparr>"

text \<open>A session with one submission, whose star is the number 0.\<close>

definition blank_ledger :: ledger where
  "blank_ledger =
     session demo_sha demo_verify (js ''1000000'')
       [\<lparr>s_now = (js ''1200000''), s_now' = (js ''1201000''), s_address = (js ''A''),
         s_message = (js ''A:1000:starRegistry''), s_signature = (js ''signed:A''), s_star = JNum 0\<rparr>]"

subsection \<open>What the queries are compared with\<close>


section \<open>Properties\<close>

subsection \<open>The worked session, computed\<close>

lemmas eval_defs =
  js_def messageTimeOf_def parseInt_def isWhiteSpace_def isDigitIn_def digitValue_def
  digitsValue_def slice_0_m3_def session_def Blockchain_init_def Blockchain_new_def
  initializeChain_begin_def addBlock_begin_def addBlock_resume_def hash_of_promise_def
  getChainHeight_def getBlockByHeight_def getBlockByHash_def getStarsByWalletAddress_def
  collectStar_def getBData_def Block_def genesisData_def submitStar_def submitStar_begin_def
  submitStar_resume_def verifyAndAdd_begin_def js_minus_def js_ge_def fiveMinutes_def
  validateChain_def validateChain_late_def check_begin_def check_resume1_def check_resume2_def
  validate_def requestMessageOwnershipVerification_def demo_sha_def demo_verify_def
  demo_calls_def demo_ledger_def forged_ledger_def blank_ledger_def Let_def


lemma demo_ledger_eq:
  "demo_ledger =
     \<lparr>chain =
        [\<lparr>hash = Hash (js ''#1000''), height = 0, body = JObj [(''data'', JStr (js ''Genesis Block''))],
          time = (js ''1000''), previousBlockHash = Undefined\<rparr>,
         \<lparr>hash = Hash (js ''#1201S1''), height = 1,
          body = JObj [(''address'', JStr (js ''A'')), (''message'', JStr (js ''A:1000:starRegistry'')),
                       (''signature'', JStr (js ''signed:A'')), (''star'', JStr (js ''S1''))],
          time = (js ''1201''), previousBlockHash = Undefined\<rparr>,
         \<lparr>hash = Hash (js ''#1203S2''), height = 2,
          body = JObj [(''address'', JStr (js ''B'')), (''message'', JStr (js ''B:1100:starRegistry'')),
                       (''signature'', JStr (js ''signed:B'')), (''star'', JStr (js ''S2''))],
          time = (js ''1203''), previousBlockHash = Undefined\<rparr>,
         \<lparr>hash = Hash (js ''#1205S3''), height = 3,
          body = JObj [(''address'', JStr (js ''A'')), (''message'', JStr (js ''A:1150:starRegistry'')),
                       (''signature'', JStr (js ''signed:A'')), (''star'', JStr (js ''S3''))],
          time = (js ''1205''), previousBlockHash = Undefined\<rparr>],
      height = 3\<rparr>"
  by (simp add: eval_defs)

lemma messageTimeOf_examples:
  "messageTimeOf (js ''A:soon:starRegistry'') = None \<and> messageTimeOf (js ''A'') = None \<and>
   messageTimeOf (js ''A:1000:starRegistry'') = Some 1000"
  by (simp add: eval_defs)

lemma clock_examples:
  "parseInt (slice_0_m3 (js ''1300000'')) = Some 1300 \<and> parseInt (slice_0_m3 (js ''1299999'')) = Some 1299
   \<and> parseInt (slice_0_m3 (js ''1301000'')) = Some 1301"
  by (simp add: eval_defs)

text \<open>
  The challenge of \<open>requestMessageOwnershipVerification\<close> carries the second at which it was
  issued as its second field.
\<close>

lemma request_example:
  "requestMessageOwnershipVerification (js ''1000999'') (js ''A'') = (js ''A:1000:starRegistry'')"
  by (simp add: eval_defs)

subsection \<open>What an append does\<close>

lemma addBlock_resume_eq:
  "addBlock_resume sha now p self =
     (Resolved (VStr (js ''Block added'')),
      self\<lparr>chain := chain self @
          [\<lparr>hash = Hash (sha ((newBlock p)\<lparr>previousBlockHash := Undefined, time := slice_0_m3 now,
                                block.height := chainHeight p + 1\<rparr>)),
            height = chainHeight p + 1, body = body (newBlock p), time = slice_0_m3 now,
            previousBlockHash = Undefined\<rparr>],
        height := ledger.height self + 1\<rparr>)"
  by (simp add: addBlock_resume_def hash_of_promise_def Let_def)

lemma Blockchain_init_eq:
  "Blockchain_init sha now =
     \<lparr>chain = [\<lparr>hash = Hash (sha \<lparr>hash = Null, height = 0, body = genesisData,
                                   time = slice_0_m3 now, previousBlockHash = Undefined\<rparr>),
                height = 0, body = genesisData, time = slice_0_m3 now,
                previousBlockHash = Undefined\<rparr>],
      height = 0\<rparr>"
  by (simp add: Blockchain_init_def Blockchain_new_def initializeChain_begin_def
      addBlock_begin_def getChainHeight_def addBlock_resume_eq Block_def)

text \<open>A submission leaves the ledger as it was or appends one block, one above the height.\<close>

lemma submitStar_effect:
  "snd (submitStar sha verify now now' address message signature star self) = self \<or>
   (\<exists>b. snd (submitStar sha verify now now' address message signature star self)
          = self\<lparr>chain := chain self @ [b], height := ledger.height self + 1\<rparr>
        \<and> block.height b = ledger.height self + 1
        \<and> previousBlockHash b = Undefined
        \<and> hash b \<noteq> Undefined \<and> hash b \<noteq> Null)"
  by (auto simp: submitStar_def submitStar_begin_def verifyAndAdd_begin_def submitStar_resume_def
      addBlock_resume_eq addBlock_begin_def getChainHeight_def Let_def
      split: outcome.splits bool.splits sum.splits)

subsection \<open>Invariants of a session\<close>

lemma upto_snoc: "0 \<le> n \<Longrightarrow> [0..n] @ [n + 1] = [0..n + 1]"
  using upto_rec2 [of 0 "n + 1"] by simp

lemma run_heights:
  "0 \<le> ledger.height self \<and> map block.height (chain self) = [0..ledger.height self] \<Longrightarrow>
   0 \<le> ledger.height (run sha verify self cs) \<and>
   map block.height (chain (run sha verify self cs)) = [0..ledger.height (run sha verify self cs)]"
proof (induction cs arbitrary: self)
  case Nil
  then show ?case by simp
next
  case (Cons c cs)
  let ?s = "snd (submitStar sha verify (s_now c) (s_now' c) (s_address c) (s_message c)
               (s_signature c) (s_star c) self)"
  have "0 \<le> ledger.height ?s \<and> map block.height (chain ?s) = [0..ledger.height ?s]"
    using submitStar_effect [of sha verify "s_now c" "s_now' c" "s_address c" "s_message c"
        "s_signature c" "s_star c" self] Cons.prems
    by (auto simp: upto_snoc)
  then show ?case using Cons.IH by simp
qed

lemma run_unlinked:
  "list_all (\<lambda>b. previousBlockHash b = Undefined \<and> hash b \<noteq> Undefined) (chain self) \<Longrightarrow>
   list_all (\<lambda>b. previousBlockHash b = Undefined \<and> hash b \<noteq> Undefined)
     (chain (run sha verify self cs))"
proof (induction cs arbitrary: self)
  case Nil
  then show ?case by simp
next
  case (Cons c cs)
  let ?s = "snd (submitStar sha verify (s_now c) (s_now' c) (s_address c) (s_message c)
               (s_signature c) (s_star c) self)"
  have "list_all (\<lambda>b. previousBlockHash b = Undefined \<and> hash b \<noteq> Undefined) (chain ?s)"
    using submitStar_effect [of sha verify "s_now c" "s_now' c" "s_address c" "s_message c"
        "s_signature c" "s_star c" self] Cons.prems
    by auto
  then show ?case using Cons.IH by simp
qed

lemma session_heights:
  "map block.height (chain (session sha verify now0 cs))
     = [0..ledger.height (session sha verify now0 cs)]"
  unfolding session_def
  using run_heights [of "Blockchain_init sha now0" sha verify cs]
  by (simp add: Blockchain_init_eq)


lemma session_unlinked:
  "list_all (\<lambda>b. previousBlockHash b = Undefined \<and> hash b \<noteq> Undefined)
     (chain (session sha verify now0 cs))"
  unfolding session_def by (rule run_unlinked) (simp add: Blockchain_init_eq)

subsection \<open>Heights and links after appends\<close>

text \<open>
  Claim C1. The first half of the claim holds: in every session the heights of the chain
  are exactly 0 up to the height of the ledger, in this order. The second half does not:
  every block of every session has \<^verbatim>\<open>previousBlockHash\<close> undefined, while every stored
  hash is defined, so no block above the genesis block carries the hash of the block below
  it. In the worked session the block at height 1 has no link, and the genesis block has
  the hash \<^verbatim>\<open>#1000\<close>.
\<close>

theorem addBlock_never_links:
  "map block.height (chain (session sha verify now0 cs))
     = [0..ledger.height (session sha verify now0 cs)] \<and>
   list_all (\<lambda>b. previousBlockHash b = Undefined \<and> hash b \<noteq> Undefined)
     (chain (session sha verify now0 cs)) \<and>
   previousBlockHash (chain demo_ledger ! 1) = Undefined \<and>
   hash (chain demo_ledger ! 0) = Hash (js ''#1000'')"
proof -
  have "previousBlockHash (chain demo_ledger ! 1) = Undefined \<and>
      hash (chain demo_ledger ! 0) = Hash (js ''#1000'')"
    by (simp add: demo_ledger_eq)
  with session_heights session_unlinked show ?thesis by blast
qed

subsection \<open>Validation\<close>

lemma check_begin_log:
  "fst (foldl (check_begin sha) (errorLog, suspended) bs) = errorLog"
  by (induction bs arbitrary: suspended) (simp_all add: check_begin_def)

lemma validateChain_always_valid:
  "fst (validateChain sha self) = Resolved (VStr (js ''Chain is valid''))"
proof -
  obtain errorLog suspended where
    f: "foldl (check_begin sha) ([], []) (chain self) = (errorLog, suspended)"
    by (cases "foldl (check_begin sha) ([], []) (chain self)") auto
  have "fst (foldl (check_begin sha) ([], []) (chain self)) = []"
    by (rule check_begin_log)
  with f have "errorLog = []" by simp
  with f show ?thesis by (simp add: validateChain_def)
qed

text \<open>
  Claim C2. The promise of \<open>validateChain\<close> resolves with the string
  \<^verbatim>\<open>Chain is valid\<close> for every digest and every ledger state: it is settled before
  any check has run. On the ledger whose block at height 2 was overwritten the checks,
  once they run, log a failed block validation at height 2 and a failed link at heights
  1, 2 and 3, and on the untouched worked session a failed link at heights 1, 2 and 3;
  none of these findings is in the result.
\<close>

theorem validateChain_loses_findings:
  "fst (validateChain sha self) = Resolved (VStr (js ''Chain is valid'')) \<and>
   fst (validateChain demo_sha forged_ledger) = Resolved (VStr (js ''Chain is valid'')) \<and>
   validateChain_late demo_sha forged_ledger
     = ([BlockValidationFailed 2, PreviousHashFailed 1, PreviousHashFailed 2,
         PreviousHashFailed 3], [VTypeError]) \<and>
   validateChain_late demo_sha demo_ledger
     = ([PreviousHashFailed 1, PreviousHashFailed 2, PreviousHashFailed 3], [VTypeError])"
proof -
  have a: "fst (validateChain demo_sha forged_ledger) = Resolved (VStr (js ''Chain is valid''))"
    by (rule validateChain_always_valid)
  have b: "validateChain_late demo_sha forged_ledger
     = ([BlockValidationFailed 2, PreviousHashFailed 1, PreviousHashFailed 2,
         PreviousHashFailed 3], [VTypeError])"
    by (simp add: eval_defs)
  have c: "validateChain_late demo_sha demo_ledger
     = ([PreviousHashFailed 1, PreviousHashFailed 2, PreviousHashFailed 3], [VTypeError])"
    by (simp add: eval_defs)
  from validateChain_always_valid a b c show ?thesis by blast
qed

text \<open>
  Claim C3. The check of a block has no guard on its height. For the genesis block of a
  ledger just initialised it asks for the block at height -1, receives \<^verbatim>\<open>null\<close>, and
  reading the hash of \<^verbatim>\<open>null\<close> throws: the check ends in a call of
  \<^verbatim>\<open>reject\<close> with a type error. The recomputed hash of the genesis block agrees with
  the stored one, so nothing is logged.
\<close>

theorem validateChain_genesis_not_exempt:
  "getBlockByHeight (0 - 1) (Blockchain_init sha now) = Resolved VNull \<and>
   check_resume2 (errorLog, rejects) (block, Resolved VNull) = (errorLog, rejects @ [VTypeError]) \<and>
   validateChain_late sha (Blockchain_init sha now) = ([], [VTypeError])"
  by (simp add: Blockchain_init_eq getBlockByHeight_def check_resume2_def validateChain_late_def
      validateChain_def check_begin_def check_resume1_def validate_def)

subsection \<open>Submitting a star\<close>

text \<open>
  Claim C4. An append resolves with the string \<^verbatim>\<open>Block added\<close>, and no submission
  resolves with a block. In the worked session the first submission appends a second block
  to the chain and resolves with that string.
\<close>

theorem submitStar_resolves_with_string:
  "fst (addBlock sha now block self) = Resolved (VStr (js ''Block added'')) \<and>
   fst (submitStar sha verify now now' address message signature star self)
     \<noteq> Resolved (VBlock b) \<and>
   fst (submitStar demo_sha demo_verify (js ''1200000'') (js ''1201000'') (js ''A'') (js ''A:1000:starRegistry'')
          (js ''signed:A'') (JStr (js ''S1'')) (Blockchain_init demo_sha (js ''1000000'')))
     = Resolved (VStr (js ''Block added'')) \<and>
   length (chain (snd (submitStar demo_sha demo_verify (js ''1200000'') (js ''1201000'') (js ''A'')
          (js ''A:1000:starRegistry'') (js ''signed:A'') (JStr (js ''S1'')) (Blockchain_init demo_sha (js ''1000000'')))))
     = 2"
proof -
  have a: "fst (addBlock sha now block self) = Resolved (VStr (js ''Block added''))"
    by (simp add: addBlock_def addBlock_resume_eq)
  have b: "fst (submitStar sha verify now now' address message signature star self)
     \<noteq> Resolved (VBlock b)"
    by (auto simp: submitStar_def submitStar_begin_def verifyAndAdd_begin_def
        submitStar_resume_def addBlock_resume_eq Let_def
        split: outcome.splits bool.splits sum.splits)
  have c: "fst (submitStar demo_sha demo_verify (js ''1200000'') (js ''1201000'') (js ''A'')
          (js ''A:1000:starRegistry'') (js ''signed:A'') (JStr (js ''S1'')) (Blockchain_init demo_sha (js ''1000000'')))
     = Resolved (VStr (js ''Block added''))"
    by (simp add: eval_defs)
  have d: "length (chain (snd (submitStar demo_sha demo_verify (js ''1200000'') (js ''1201000'') (js ''A'')
          (js ''A:1000:starRegistry'') (js ''signed:A'') (JStr (js ''S1'')) (Blockchain_init demo_sha (js ''1000000'')))))
     = 2"
    by (simp add: eval_defs)
  from a b c d show ?thesis by blast
qed

text \<open>
  Claim C5. Let the clock read \<open>c\<close> seconds and the message carry the second \<open>t\<close>. If
  \<open>c - t\<close> is at least 300, the submission rejects with the message about five minutes and
  leaves the ledger as it is, and what the call does is the same for any two verifiers: the
  verifier is not consulted. If \<open>c - t\<close> is below 300, the call goes on to the verifier, and
  when the verifier accepts, the submission resolves and the chain has one more block, which
  holds the address, the message, the signature and the star, one above the height.
\<close>

theorem submitStar_freshness:
  assumes "parseInt (slice_0_m3 now) = Some c" and "messageTimeOf message = Some t"
  shows "(300 \<le> c - t \<longrightarrow>
            submitStar sha verify now now' address message signature star self
              = (Rejected (VStr (js ''5 minutes or more has elapsed, can't register this new block'')),
                 self) \<and>
            submitStar_begin verify now address message signature star self
              = submitStar_begin verify' now address message signature star self) \<and>
         (c - t < 300 \<longrightarrow>
            submitStar_begin verify now address message signature star self
              = verifyAndAdd_begin verify address message signature star self) \<and>
         (c - t < 300 \<and> verify message address signature = Returns True \<longrightarrow>
            submitStar sha verify now now' address message signature star self
              = (Resolved (VStr (js ''Block added'')),
                 self\<lparr>chain := chain self @
                     [\<lparr>hash = Hash (sha \<lparr>hash = Null, height = ledger.height self + 1,
                          body = JObj [(''address'', JStr address), (''message'', JStr message),
                                       (''signature'', JStr signature), (''star'', star)],
                          time = slice_0_m3 now', previousBlockHash = Undefined\<rparr>),
                       height = ledger.height self + 1,
                       body = JObj [(''address'', JStr address), (''message'', JStr message),
                                    (''signature'', JStr signature), (''star'', star)],
                       time = slice_0_m3 now', previousBlockHash = Undefined\<rparr>],
                   height := ledger.height self + 1\<rparr>))"
  using assms
  by (simp add: submitStar_def submitStar_begin_def verifyAndAdd_begin_def submitStar_resume_def
      addBlock_resume_eq addBlock_begin_def getChainHeight_def Block_def js_minus_def js_ge_def
      fiveMinutes_def Let_def)

theorem submitStar_freshness_witness:
  "submitStar demo_sha demo_verify (js ''1300000'') (js ''1300500'') (js ''A'') (js ''A:1000:starRegistry'')
       (js ''signed:A'') (JStr (js ''S1'')) (Blockchain_init demo_sha (js ''1000000''))
     = (Rejected (VStr (js ''5 minutes or more has elapsed, can't register this new block'')),
        Blockchain_init demo_sha (js ''1000000'')) \<and>
   submitStar demo_sha demo_verify (js ''1301000'') (js ''1301500'') (js ''A'') (js ''A:1000:starRegistry'')
       (js ''signed:A'') (JStr (js ''S1'')) (Blockchain_init demo_sha (js ''1000000''))
     = (Rejected (VStr (js ''5 minutes or more has elapsed, can't register this new block'')),
        Blockchain_init demo_sha (js ''1000000'')) \<and>
   fst (submitStar demo_sha demo_verify (js ''1299999'') (js ''1300500'') (js ''A'') (js ''A:1000:starRegistry'')
       (js ''signed:A'') (JStr (js ''S1'')) (Blockchain_init demo_sha (js ''1000000'')))
     = Resolved (VStr (js ''Block added''))"
  using submitStar_freshness [of "(js ''1300000'')" 1300 "(js ''A:1000:starRegistry'')" 1000 demo_sha
      demo_verify "(js ''1300500'')" "(js ''A'')" "(js ''signed:A'')" "JStr (js ''S1'')"
      "Blockchain_init demo_sha (js ''1000000'')" demo_verify]
    submitStar_freshness [of "(js ''1301000'')" 1301 "(js ''A:1000:starRegistry'')" 1000 demo_sha
      demo_verify "(js ''1301500'')" "(js ''A'')" "(js ''signed:A'')" "JStr (js ''S1'')"
      "Blockchain_init demo_sha (js ''1000000'')" demo_verify]
    submitStar_freshness [of "(js ''1299999'')" 1299 "(js ''A:1000:starRegistry'')" 1000 demo_sha
      demo_verify "(js ''1300500'')" "(js ''A'')" "(js ''signed:A'')" "JStr (js ''S1'')"
      "Blockchain_init demo_sha (js ''1000000'')" demo_verify]
    clock_examples messageTimeOf_examples
  by (simp add: demo_verify_def js_def)

lemma split_colon_no_colon: "of_char (CHR '':'') \<notin> set s \<Longrightarrow> split_colon s = [s]"
  by (induction s) auto

text \<open>
  White space before the digits is skipped, whichever it is: here the no-break space, the
  byte order mark, the line separator, an em space and the ideographic space. Such a
  message carries a time, and is rejected once it is stale.
\<close>

lemma messageTimeOf_white_space:
  "messageTimeOf (js ''A:'' @ [0x00A0] @ js ''1000:starRegistry'') = Some 1000 \<and>
   messageTimeOf (js ''A:'' @ [0xFEFF] @ js ''1000:starRegistry'') = Some 1000 \<and>
   messageTimeOf (js ''A:'' @ [0x2028] @ js ''1000:starRegistry'') = Some 1000 \<and>
   messageTimeOf (js ''A:'' @ [0x2003] @ js ''1000:starRegistry'') = Some 1000 \<and>
   messageTimeOf (js ''A:'' @ [0x3000, 0x0009] @ js ''-1000:starRegistry'') = Some (- 1000) \<and>
   messageTimeOf (js ''A:- 1000:starRegistry'') = None"
  by (simp add: eval_defs)

lemma submitStar_white_space_expired:
  "submitStar_begin verify (js ''1300000'') address
       (js ''A:'' @ [0x00A0] @ js ''1000:starRegistry'') signature star self
     = Inl (Rejected (VStr
         (js ''5 minutes or more has elapsed, can't register this new block'')))"
  by (simp add: eval_defs)

lemma parseInt_undefined: "parseInt (js ''undefined'') = None"
  by (simp add: eval_defs)

text \<open>
  Claim C10. A message with no colon has no second field, and its time parses to
  \<^verbatim>\<open>NaN\<close>. Whenever the time of the message parses to \<^verbatim>\<open>NaN\<close>, whatever the
  clock reads, the freshness check does not reject: the call does exactly what follows the
  check, which starts by consulting the verifier.
\<close>

theorem submitStar_NaN_not_expired:
  "(of_char (CHR '':'') \<notin> set message \<longrightarrow> messageTimeOf message = None) \<and>
   (messageTimeOf message = None \<longrightarrow>
      submitStar_begin verify now address message signature star self
        = verifyAndAdd_begin verify address message signature star self)"
  by (simp add: messageTimeOf_def split_colon_no_colon parseInt_undefined submitStar_begin_def
      js_minus_def js_ge_def Let_def split: option.splits)

theorem submitStar_NaN_not_expired_witness:
  "messageTimeOf (js ''A'') = None \<and>
   submitStar_begin demo_verify (js ''9999999999999'') (js ''A'') (js ''A'') (js ''signed:A'') (JStr (js ''S1''))
       (Blockchain_init demo_sha (js ''1000000''))
     = Inr \<lparr>chainHeight = 0,
            newBlock = Block (JObj [(''address'', JStr (js ''A'')), (''message'', JStr (js ''A'')),
              (''signature'', JStr (js ''signed:A'')), (''star'', JStr (js ''S1''))])\<rparr> \<and>
   submitStar_begin demo_verify (js ''9999999999999'') (js ''A'') (js ''A:soon:starRegistry'') (js ''forged'')
       (JStr (js ''S1'')) (Blockchain_init demo_sha (js ''1000000''))
     = Inl (Rejected (VStr (js ''A:soon:starRegistry:A:forged can't be verified'')))"
  using submitStar_NaN_not_expired [of "(js ''A'')" demo_verify "(js ''9999999999999'')" "(js ''A'')"
      "(js ''signed:A'')" "JStr (js ''S1'')" "Blockchain_init demo_sha (js ''1000000'')"]
    submitStar_NaN_not_expired [of "(js ''A:soon:starRegistry'')" demo_verify "(js ''9999999999999'')"
      "(js ''A'')" "(js ''forged'')" "JStr (js ''S1'')" "Blockchain_init demo_sha (js ''1000000'')"]
    messageTimeOf_examples
  by (simp add: verifyAndAdd_begin_def demo_verify_def addBlock_begin_def getChainHeight_def
      Blockchain_init_eq js_def)

subsection \<open>Construction\<close>

text \<open>
  Against claim C6 as stated: when the constructor returns, the chain is empty and the
  height is -1. A query made then sees no block at height 0, and a submission made then
  reads the height -1 for its own block.
\<close>

theorem Blockchain_new_is_empty:
  "chain (fst Blockchain_new) = [] \<and> ledger.height (fst Blockchain_new) = - 1 \<and>
   getChainHeight (fst Blockchain_new) = - 1 \<and>
   getBlockByHeight 0 (fst Blockchain_new) = Resolved VNull \<and>
   submitStar_begin demo_verify (js ''1200000'') (js ''A'') (js ''A:1000:starRegistry'') (js ''signed:A'')
       (JStr (js ''S1'')) (fst Blockchain_new)
     = Inr \<lparr>chainHeight = - 1,
            newBlock = Block (JObj [(''address'', JStr (js ''A'')),
              (''message'', JStr (js ''A:1000:starRegistry'')), (''signature'', JStr (js ''signed:A'')),
              (''star'', JStr (js ''S1''))])\<rparr>"
  by (simp add: eval_defs)

text \<open>
  Claim C6, amended. When the constructor returns, the ledger is empty with height -1 and
  the append of the genesis block is suspended. Once that append has run, nothing else
  having run before it, the ledger has height 0 and exactly one block: it has height 0,
  its \<^verbatim>\<open>previousBlockHash\<close> is undefined, its payload is
  \<^verbatim>\<open>{data: "Genesis Block"}\<close>, and its hash is the digest of these contents.
\<close>

theorem Blockchain_init_genesis:
  "Blockchain_new =
     (\<lparr>chain = [], height = - 1\<rparr>,
      Some \<lparr>chainHeight = - 1, newBlock = Block (JObj [(''data'', JStr (js ''Genesis Block''))])\<rparr>) \<and>
   Blockchain_init sha now =
     \<lparr>chain = [\<lparr>hash = Hash (sha \<lparr>hash = Null, height = 0,
                     body = JObj [(''data'', JStr (js ''Genesis Block''))],
                     time = slice_0_m3 now, previousBlockHash = Undefined\<rparr>),
                height = 0, body = JObj [(''data'', JStr (js ''Genesis Block''))],
                time = slice_0_m3 now, previousBlockHash = Undefined\<rparr>],
      height = 0\<rparr>"
  by (simp add: Blockchain_init_eq genesisData_def Blockchain_new_def initializeChain_begin_def
      addBlock_begin_def getChainHeight_def)

subsection \<open>The stars of an address\<close>





lemma demo_stars:
  "getStarsByWalletAddress (js ''A'') demo_ledger = Resolved (VStars [JStr (js ''S1''), JStr (js ''S3'')]) \<and>
   getStarsByWalletAddress (js ''B'') demo_ledger = Resolved (VStars [JStr (js ''S2'')]) \<and>
   getStarsByWalletAddress (js ''C'') demo_ledger = Resolved (VStars [])"
  by (simp add: eval_defs)



subsection \<open>Looking a block up by its hash\<close>

lemma find_hash_unique:
  "distinct (map hash bs) \<Longrightarrow> b \<in> set bs \<Longrightarrow> List.find (\<lambda>x. hash x = hash b) bs = Some b"
proof (induction bs)
  case Nil
  then show ?case by simp
next
  case (Cons a bs)
  show ?case
  proof (cases "hash a = hash b")
    case True
    with Cons.prems have "a = b" by (auto simp: image_iff)
    with True show ?thesis by simp
  next
    case False
    with Cons show ?thesis by auto
  qed
qed

text \<open>
  In a session every block holds the digest of its own contents, and the heights differ
  from block to block. So a digest that tells apart blocks of different heights, as every
  injective one does, leaves no two blocks of a session with the same hash.
\<close>

lemma submitStar_validates:
  "list_all (validate sha) (chain self) \<Longrightarrow>
   list_all (validate sha)
     (chain (snd (submitStar sha verify now now' address message signature star self)))"
  by (auto simp: submitStar_def submitStar_begin_def verifyAndAdd_begin_def submitStar_resume_def
      addBlock_resume_eq addBlock_begin_def Block_def validate_def Let_def
      split: outcome.splits bool.splits sum.splits)

lemma run_validates:
  "list_all (validate sha) (chain self) \<Longrightarrow>
   list_all (validate sha) (chain (run sha verify self cs))"
  by (induction cs arbitrary: self) (simp_all add: submitStar_validates)

lemma session_validates: "list_all (validate sha) (chain (session sha verify now0 cs))"
  unfolding session_def
  by (rule run_validates) (simp add: Blockchain_init_eq validate_def)

lemma distinct_map_transfer:
  "distinct (map g xs) \<Longrightarrow> (\<And>x y. x \<in> set xs \<Longrightarrow> y \<in> set xs \<Longrightarrow> f x = f y \<Longrightarrow> g x = g y) \<Longrightarrow>
   distinct (map f xs)"
proof (induction xs)
  case Nil
  then show ?case by simp
next
  case (Cons a xs)
  have "f a \<notin> f ` set xs"
  proof
    assume "f a \<in> f ` set xs"
    then obtain y where y: "y \<in> set xs" and "f a = f y" by auto
    with Cons.prems(2) [of a y] have "g a = g y" by simp
    with y Cons.prems(1) show False by (auto simp: image_iff)
  qed
  moreover have "distinct (map f xs)"
    using Cons.IH Cons.prems by simp
  ultimately show ?case by simp
qed

lemma session_hashes_distinct:
  assumes "\<And>x y. block.height x \<noteq> block.height y \<Longrightarrow> sha x \<noteq> sha y"
  shows "distinct (map hash (chain (session sha verify now0 cs)))"
proof -
  let ?s = "session sha verify now0 cs"
  have d: "distinct (map block.height (chain ?s))"
    by (simp only: session_heights distinct_upto)
  have v: "list_all (validate sha) (chain ?s)" by (rule session_validates)
  show ?thesis
  proof (rule distinct_map_transfer [OF d])
    fix x y
    assume x: "x \<in> set (chain ?s)" and y: "y \<in> set (chain ?s)" and e: "hash x = hash y"
    from v x y have "hash x = Hash (sha (x\<lparr>hash := Null\<rparr>))"
      and "hash y = Hash (sha (y\<lparr>hash := Null\<rparr>))"
      by (auto simp: list_all_iff validate_def)
    with e have "sha (x\<lparr>hash := Null\<rparr>) = sha (y\<lparr>hash := Null\<rparr>)" by simp
    with assms [of "x\<lparr>hash := Null\<rparr>" "y\<lparr>hash := Null\<rparr>"]
    show "block.height x = block.height y" by auto
  qed
qed

lemma session_hashes_distinct_inj:
  "inj sha \<Longrightarrow> distinct (map hash (chain (session sha verify now0 cs)))"
proof (rule session_hashes_distinct)
  fix x y :: block
  assume "inj sha" and "block.height x \<noteq> block.height y"
  then show "sha x \<noteq> sha y" by (auto dest: injD)
qed

text \<open>
  Claim C8. In every ledger state whose blocks have pairwise different hashes (the digest
  is taken to be free of collisions on the chain, which by the lemmas above is so in every
  session when the digest is injective), looking up the hash of a block of the
  chain resolves with that very block; looking up a hash that no block of the chain holds
  rejects with the message \<^verbatim>\<open>Can't find block with hash: \<close> followed by the hash.
\<close>

theorem getBlockByHash_roundtrip:
  "(b \<in> set (chain self) \<and> hash b = Hash h \<and> distinct (map hash (chain self))
      \<longrightarrow> getBlockByHash h self = Resolved (VBlock b)) \<and>
   (Hash h \<notin> hash ` set (chain self)
      \<longrightarrow> getBlockByHash h self = Rejected (VStr ((js ''Can't find block with hash: '') @ h)))"
proof (intro conjI impI)
  assume a: "b \<in> set (chain self) \<and> hash b = Hash h \<and> distinct (map hash (chain self))"
  then have "List.find (\<lambda>x. hash x = hash b) (chain self) = Some b"
    using find_hash_unique by blast
  with a show "getBlockByHash h self = Resolved (VBlock b)"
    by (simp add: getBlockByHash_def)
next
  assume "Hash h \<notin> hash ` set (chain self)"
  then have "List.find (\<lambda>x. hash x = Hash h) (chain self) = None"
    by (force simp: find_None_iff image_iff)
  then show "getBlockByHash h self = Rejected (VStr ((js ''Can't find block with hash: '') @ h))"
    by (simp add: getBlockByHash_def)
qed

theorem getBlockByHash_roundtrip_witness:
  "getBlockByHash (js ''#1203S2'') demo_ledger =
     Resolved (VBlock \<lparr>hash = Hash (js ''#1203S2''), height = 2,
        body = JObj [(''address'', JStr (js ''B'')), (''message'', JStr (js ''B:1100:starRegistry'')),
                     (''signature'', JStr (js ''signed:B'')), (''star'', JStr (js ''S2''))],
        time = (js ''1203''), previousBlockHash = Undefined\<rparr>) \<and>
   getBlockByHash (js ''#1204'') demo_ledger = Rejected (VStr (js ''Can't find block with hash: #1204''))"
  using getBlockByHash_roundtrip [of "chain demo_ledger ! 2" demo_ledger "(js ''#1203S2'')"]
    getBlockByHash_roundtrip [of "chain demo_ledger ! 0" demo_ledger "(js ''#1204'')"]
  by (simp add: demo_ledger_eq js_def)

subsection \<open>Looking a block up by its height\<close>

text \<open>
  Claim C9. In every ledger state, \<open>getBlockByHeight h\<close> resolves: with \<^verbatim>\<open>null\<close> when
  no block of the chain has the height \<open>h\<close>, and otherwise with a block of the chain whose
  height field is \<open>h\<close>. It never rejects. In a session the heights that exist are those
  from 0 to the height of the ledger.
\<close>

theorem getBlockByHeight_null_or_block:
  "(h \<notin> block.height ` set (chain self) \<longrightarrow> getBlockByHeight h self = Resolved VNull) \<and>
   (h \<in> block.height ` set (chain self) \<longrightarrow>
      (\<exists>b. getBlockByHeight h self = Resolved (VBlock b) \<and> b \<in> set (chain self)
           \<and> block.height b = h)) \<and>
   block.height ` set (chain (session sha verify now0 cs))
     = {0..ledger.height (session sha verify now0 cs)}"
proof (intro conjI impI)
  assume "h \<notin> block.height ` set (chain self)"
  then have "filter (\<lambda>p. block.height p = h) (chain self) = []"
    by (auto simp: filter_empty_conv)
  then show "getBlockByHeight h self = Resolved VNull"
    by (simp add: getBlockByHeight_def)
next
  assume "h \<in> block.height ` set (chain self)"
  then have "filter (\<lambda>p. block.height p = h) (chain self) \<noteq> []"
    by (auto simp: filter_empty_conv)
  then obtain b rest where f: "filter (\<lambda>p. block.height p = h) (chain self) = b # rest"
    by (cases "filter (\<lambda>p. block.height p = h) (chain self)") auto
  then have "b \<in> set (filter (\<lambda>p. block.height p = h) (chain self))" by simp
  then have "b \<in> set (chain self) \<and> block.height b = h" by simp
  with f show "\<exists>b. getBlockByHeight h self = Resolved (VBlock b) \<and> b \<in> set (chain self)
      \<and> block.height b = h"
    by (simp add: getBlockByHeight_def)
next
  let ?s = "session sha verify now0 cs"
  have "set (map block.height (chain ?s)) = set [0..ledger.height ?s]"
    by (simp only: session_heights)
  then show "block.height ` set (chain ?s) = {0..ledger.height ?s}" by simp
qed

theorem getBlockByHeight_null_or_block_witness:
  "getBlockByHeight 4 demo_ledger = Resolved VNull \<and>
   getBlockByHeight (- 1) demo_ledger = Resolved VNull \<and>
   (\<exists>b. getBlockByHeight 3 demo_ledger = Resolved (VBlock b) \<and> b \<in> set (chain demo_ledger)
        \<and> block.height b = 3)"
  using getBlockByHeight_null_or_block [of 4 demo_ledger]
    getBlockByHeight_null_or_block [of "- 1" demo_ledger]
    getBlockByHeight_null_or_block [of 3 demo_ledger]
  by (simp add: demo_ledger_eq)


end
